theory Spec2Isabelle
  imports Main
begin

section \<open>JavaScript values\<close>

text \<open>
  Everything the script stores or sends is data that came out of a JSON text: the
  catalogue, the saved selection, the reply of the worker. A value is either
  \<open>null\<close> or a non-null value; the two are kept apart because reading a property of
  \<open>null\<close> throws a TypeError while reading one of any other value does not.
  Numbers are integers (the catalogue's product ids); only equality is used on them.
  An object lists its own properties, each name once.
\<close>

datatype json = JNull | JV val
  and val = VBool bool | VNum int | VStr string | VArr "json list" | VObj "(string \<times> json) list"

text \<open>The result of a property read: \<open>None\<close> is \<open>undefined\<close>.\<close>

type_synonym jsval = "json option"

text \<open>
  \<open>p.name\<close> on a non-null value, for the property names the script reads
  (\<open>id\<close>, \<open>name\<close>, \<open>brand\<close>, \<open>category\<close>, \<open>image\<close>, \<open>description\<close>, \<open>content\<close>,
  \<open>products\<close>): only an object can have them.
\<close>

fun get_prop :: "val \<Rightarrow> string \<Rightarrow> jsval" where
  "get_prop (VObj kvs) name = map_of kvs name"
| "get_prop _ name = None"

datatype error = TypeError | SyntaxError | DOMException

text \<open>
  Turning a value into text, as a template literal and the \<open>textContent\<close> setter do,
  throws a TypeError for an object that has a property \<open>toString\<close> of its own (in data
  read from JSON it is never a function, and \<open>valueOf\<close> gives the object back), and for
  a list with such an element, whose text is the join of the texts of its elements.
  \<open>null\<close> and \<open>undefined\<close> never throw.
\<close>

fun ToString_throws_json :: "json \<Rightarrow> bool"
  and ToString_throws_val :: "val \<Rightarrow> bool" where
  "ToString_throws_json JNull = False"
| "ToString_throws_json (JV v) = ToString_throws_val v"
| "ToString_throws_val (VObj kvs) = (map_of kvs ''toString'' \<noteq> None)"
| "ToString_throws_val (VArr xs) = (\<exists>x \<in> set xs. ToString_throws_json x)"
| "ToString_throws_val (VBool b) = False"
| "ToString_throws_val (VNum n) = False"
| "ToString_throws_val (VStr t) = False"

definition ToString_throws :: "jsval \<Rightarrow> bool" where
  "ToString_throws v = (case v of None \<Rightarrow> False | Some j \<Rightarrow> ToString_throws_json j)"

subsection \<open>The keys of a \<open>Map\<close>\<close>

text \<open>
  A \<open>Map\<close> compares primitive keys by value and objects by identity. \<open>KRef i\<close> is the
  identity of the object or array read from element \<open>i\<close> of the list being loaded.
\<close>

datatype key = KUndefined | KNull | KBool bool | KNum int | KStr string | KRef nat

fun key_of :: "nat \<Rightarrow> jsval \<Rightarrow> key" where
  "key_of i None = KUndefined"
| "key_of i (Some JNull) = KNull"
| "key_of i (Some (JV (VBool b))) = KBool b"
| "key_of i (Some (JV (VNum n))) = KNum n"
| "key_of i (Some (JV (VStr s))) = KStr s"
| "key_of i (Some (JV (VArr xs))) = KRef i"
| "key_of i (Some (JV (VObj kvs))) = KRef i"

text \<open>
  A \<open>Map\<close> keeps its entries in insertion order: \<open>set\<close> on a key that is present
  replaces the value where it stands, on a new key it adds the entry at the end.
\<close>

type_synonym store = "(key \<times> val) list"

fun map_has :: "key \<Rightarrow> store \<Rightarrow> bool" where
  "map_has k [] = False"
| "map_has k ((k', v) # m) = (k' = k \<or> map_has k m)"

fun map_delete :: "key \<Rightarrow> store \<Rightarrow> store" where
  "map_delete k [] = []"
| "map_delete k ((k', v) # m) = (if k' = k then map_delete k m else (k', v) # map_delete k m)"

fun map_set :: "key \<Rightarrow> val \<Rightarrow> store \<Rightarrow> store" where
  "map_set k v [] = [(k, v)]"
| "map_set k v ((k', v') # m) = (if k' = k then (k, v) # m else (k', v') # map_set k v m)"

definition map_values :: "store \<Rightarrow> val list" where
  "map_values m = map snd m"

section \<open>The page\<close>

datatype role = System | User | Assistant

record message =
  role :: role
  content :: jsval

text \<open>A bubble of the chat window: the class of its wrapper and the value given to its text.\<close>

type_synonym bubble = "role \<times> jsval"

text \<open>
  What \<open>selectedProductsList\<close> shows: the placeholder, or one chip per record, each
  built from \<open>p.id\<close>, \<open>p.name\<close> and \<open>p.brand\<close>.
\<close>

datatype projection = Placeholder | Chips "(jsval \<times> jsval \<times> jsval) list"

text \<open>The observable effects, in the order they happen.\<close>

datatype effect =
    SetItem string
  | SetItemThrew string
  | Warn string
  | LogError string
  | Render projection

text \<open>
  The platform: the built-in functions the script calls and the behaviour of the
  browser's storage and selector engine. \<open>selector_throws k\<close> is the error, if any, of
  building the selector of a card from the key \<open>k\<close> and looking it up. Nothing is
  assumed about the platform here; a theorem that needs a property of it states it.
\<close>

record env =
  JSON_stringify :: "json \<Rightarrow> string"
  JSON_stringify_indent :: "json \<Rightarrow> string"
  JSON_parse :: "string \<Rightarrow> json option"
  String_trim :: "string \<Rightarrow> string"
  setItem_throws :: "string \<Rightarrow> bool"
  getItem_throws :: bool
  selector_throws :: "key \<Rightarrow> error option"
  null_read_message :: string
  coercion_message :: string

text \<open>
  The state of the page. The cards of the product grid and their \<open>selected\<close> class are
  not part of it. \<open>requests\<close> lists the \<open>messages\<close> of every request sent to the
  worker; \<open>chat_awaiting\<close> and \<open>generate_awaiting\<close> count the handlers suspended at
  their \<open>await\<close>; \<open>listeners_attached\<close> says that the script has run to its end, past
  the lines that attach the handlers.
\<close>

record state =
  selectedProducts :: store
  lastDisplayedProducts :: "val list option"
  localStorage_item :: "string option"
  selectedProductsList :: projection
  conversationMessages :: "message list"
  chatWindow :: "bubble list"
  userInput :: string
  sendBtn_disabled :: bool
  generateBtn_disabled :: bool
  generateBtn_label :: string
  requests :: "message list list"
  effects :: "effect list"
  chat_awaiting :: nat
  generate_awaiting :: nat
  listeners_attached :: bool

definition emit :: "effect \<Rightarrow> state \<Rightarrow> state" where
  "emit x s = s\<lparr>effects := effects s @ [x]\<rparr>"

section \<open>Selection and persistence\<close>

text \<open>\<open>Array.from(selectedProducts.values())\<close>, as the value handed to \<open>JSON.stringify\<close>.\<close>

definition values_array :: "store \<Rightarrow> json" where
  "values_array m = JV (VArr (map JV (map_values m)))"

definition saveSelectedProducts :: "env \<Rightarrow> state \<Rightarrow> state" where
  "saveSelectedProducts e s =
     (let arr = values_array (selectedProducts s);
          text = JSON_stringify e arr
      in if setItem_throws e text
         then emit (Warn ''Could not save selected products'') (emit (SetItemThrew text) s)
         else emit (SetItem text) (s\<lparr>localStorage_item := Some text\<rparr>))"

text \<open>
  \<open>renderSelectedProducts\<close>: the placeholder for an empty map, else one chip per value.
  The template of a chip turns \<open>p.id\<close>, \<open>p.name\<close> and \<open>p.brand\<close> into text; when one
  of them throws, nothing has been written to the list yet and the error leaves the
  function.
\<close>

definition chip :: "val \<Rightarrow> jsval \<times> jsval \<times> jsval" where
  "chip p = (get_prop p ''id'', get_prop p ''name'', get_prop p ''brand'')"

definition chip_throws :: "val \<Rightarrow> bool" where
  "chip_throws p =
     (ToString_throws (get_prop p ''id'') \<or> ToString_throws (get_prop p ''name'') \<or>
      ToString_throws (get_prop p ''brand''))"

definition project :: "store \<Rightarrow> projection" where
  "project m = (if length m = 0 then Placeholder else Chips (map chip (map_values m)))"

definition renderSelectedProducts :: "state \<Rightarrow> state \<times> error option" where
  "renderSelectedProducts s =
     (if length (selectedProducts s) = 0
      then (emit (Render Placeholder) (s\<lparr>selectedProductsList := Placeholder\<rparr>), None)
      else if list_ex chip_throws (map_values (selectedProducts s)) then (s, Some TypeError)
      else
        let view = Chips (map chip (map_values (selectedProducts s)))
        in (emit (Render view) (s\<lparr>selectedProductsList := view\<rparr>), None))"

text \<open>
  \<open>markSelectedCards\<close> builds a selector from every key and looks it up with
  \<open>querySelector\<close>; the first key for which that throws ends it. Only that is modelled.
\<close>

definition markSelectedCards :: "env \<Rightarrow> state \<Rightarrow> error option" where
  "markSelectedCards e s =
     (case List.map_filter (selector_throws e) (map fst (selectedProducts s)) of
        [] \<Rightarrow> None
      | err # errs \<Rightarrow> Some err)"

text \<open>
  \<open>arr.forEach((p) => selectedProducts.set(p.id, p))\<close> on a list: reading \<open>p.id\<close> of
  \<open>null\<close> throws and leaves the entries set so far.
\<close>

fun forEach_set :: "nat \<Rightarrow> json list \<Rightarrow> store \<Rightarrow> store \<times> error option" where
  "forEach_set i [] m = (m, None)"
| "forEach_set i (JNull # ps) m = (m, Some TypeError)"
| "forEach_set i (JV p # ps) m = forEach_set (Suc i) ps (map_set (key_of i (get_prop p ''id'')) p m)"

text \<open>
  The \<open>catch\<close> block of \<open>loadSelectedFromStorage\<close>: it warns and renders, outside any
  \<open>try\<close>, so an error of that render goes to the caller.
\<close>

definition load_failed :: "state \<Rightarrow> state \<times> error option" where
  "load_failed s = renderSelectedProducts (emit (Warn ''Could not load selected products'') s)"

text \<open>A render inside the \<open>try\<close> block, with nothing after it.\<close>

definition try_render :: "state \<Rightarrow> state \<times> error option" where
  "try_render s =
     (case renderSelectedProducts s of
        (s', None) \<Rightarrow> (s', None)
      | (s', Some err) \<Rightarrow> load_failed s')"

definition loadSelectedFromStorage :: "env \<Rightarrow> state \<Rightarrow> state \<times> error option" where
  "loadSelectedFromStorage e s =
     (if getItem_throws e then load_failed s
      else case localStorage_item s of
        None \<Rightarrow> try_render s
      | Some raw \<Rightarrow>
          if raw = [] then try_render s
          else (case JSON_parse e raw of
            None \<Rightarrow> load_failed s
          | Some (JV (VArr arr)) \<Rightarrow>
              (case forEach_set 0 arr [] of
                 (m, Some err) \<Rightarrow> load_failed (s\<lparr>selectedProducts := m\<rparr>)
               | (m, None) \<Rightarrow>
                   (case renderSelectedProducts (s\<lparr>selectedProducts := m\<rparr>) of
                      (s', Some err) \<Rightarrow> load_failed s'
                    | (s', None) \<Rightarrow>
                        (case markSelectedCards e s' of
                           None \<Rightarrow> (s', None)
                         | Some err \<Rightarrow> load_failed s')))
          | Some other \<Rightarrow> load_failed (s\<lparr>selectedProducts := []\<rparr>)))"

text \<open>\<open>products.find((p) => p.id === productId)\<close>, with \<open>productId\<close> a number.\<close>

definition find_product :: "int \<Rightarrow> val list \<Rightarrow> val option" where
  "find_product productId products =
     find (\<lambda>p. get_prop p ''id'' = Some (JV (VNum productId))) products"

text \<open>\<open>window.__lastDisplayedProducts || []\<close>\<close>

definition displayed :: "state \<Rightarrow> val list" where
  "displayed s = (case lastDisplayedProducts s of None \<Rightarrow> [] | Some ps \<Rightarrow> ps)"

text \<open>
  \<open>toggleSelect\<close> gives the state it leaves and the error, if any, that leaves it: the
  render at its end can throw, after the map has changed and has been saved.
\<close>

definition toggleSelect :: "env \<Rightarrow> int \<Rightarrow> state \<Rightarrow> state \<times> error option" where
  "toggleSelect e productId s =
     (let products = displayed s
      in case find_product productId products of
        None \<Rightarrow> (s, None)
      | Some product \<Rightarrow>
          let m = selectedProducts s;
              m' = (if map_has (KNum productId) m then map_delete (KNum productId) m
                    else map_set (KNum productId) product m)
          in renderSelectedProducts (saveSelectedProducts e (s\<lparr>selectedProducts := m'\<rparr>)))"

text \<open>
  The click handler of a chip's remove button; \<open>removeId\<close> is
  \<open>Number(btn.dataset.removeId)\<close>. When the render throws, the save after it is not
  reached.
\<close>

definition chip_remove_click :: "env \<Rightarrow> int \<Rightarrow> state \<Rightarrow> state \<times> error option" where
  "chip_remove_click e removeId s =
     (case renderSelectedProducts
             (s\<lparr>selectedProducts := map_delete (KNum removeId) (selectedProducts s)\<rparr>) of
        (s', Some err) \<Rightarrow> (s', Some err)
      | (s', None) \<Rightarrow> (saveSelectedProducts e s', None))"

text \<open>
  \<open>displayProducts\<close> records the list before it renders the cards. The template of a
  card turns \<open>product.id\<close>, \<open>product.image\<close>, \<open>product.name\<close> and \<open>product.brand\<close> into
  text; an error thrown there, or by \<open>markSelectedCards\<close> at the end, leaves the list
  recorded.
\<close>

definition card_throws :: "val \<Rightarrow> bool" where
  "card_throws product =
     (ToString_throws (get_prop product ''id'') \<or> ToString_throws (get_prop product ''image'') \<or>
      ToString_throws (get_prop product ''name'') \<or> ToString_throws (get_prop product ''brand''))"

definition displayProducts :: "env \<Rightarrow> val list \<Rightarrow> state \<Rightarrow> state \<times> error option" where
  "displayProducts e products s =
     (let s' = s\<lparr>lastDisplayedProducts := Some products\<rparr>
      in if list_ex card_throws products then (s', Some TypeError)
         else (s', markSelectedCards e s'))"

text \<open>
  \<open>products.filter((product) => product.category === selectedCategory)\<close>: reading
  \<open>category\<close> of a \<open>null\<close> element throws.
\<close>

fun filter_category :: "string \<Rightarrow> json list \<Rightarrow> error + val list" where
  "filter_category c [] = Inr []"
| "filter_category c (JNull # ps) = Inl TypeError"
| "filter_category c (JV p # ps) =
     (case filter_category c ps of
        Inl err \<Rightarrow> Inl err
      | Inr rest \<Rightarrow> Inr (if get_prop p ''category'' = Some (JV (VStr c)) then p # rest else rest))"

text \<open>
  The change handler of the category filter, from the moment the catalogue \<open>data\<close> has
  arrived. An error leaves the handler uncaught.
\<close>

definition categoryFilter_change :: "env \<Rightarrow> json \<Rightarrow> string \<Rightarrow> state \<Rightarrow> state \<times> error option" where
  "categoryFilter_change e data selectedCategory s =
     (case data of
        JNull \<Rightarrow> (s, Some TypeError)
      | JV d \<Rightarrow>
          (case get_prop d ''products'' of
             Some (JV (VArr products)) \<Rightarrow>
               (case filter_category selectedCategory products of
                  Inl err \<Rightarrow> (s, Some err)
                | Inr filteredProducts \<Rightarrow> displayProducts e filteredProducts s)
           | _ \<Rightarrow> (s, Some TypeError)))"

section \<open>Conversation\<close>

text \<open>A number inside a template literal: its decimal digits.\<close>

fun show_nat :: "nat \<Rightarrow> string" where
  "show_nat n =
     (if n < 10 then [char_of (48 + n)] else show_nat (n div 10) @ [char_of (48 + n mod 10)])"

declare show_nat.simps [simp del]

definition str :: "string \<Rightarrow> jsval" where
  "str t = Some (JV (VStr t))"

text \<open>The system message the history starts with (its text as UTF-8 bytes).\<close>

definition system_prompt :: string where
  "system_prompt =
     ''You are a helpful L'' @ [CHR 0x27] @ ''Or'' @ [CHR 0xC3, CHR 0xA9] @
     ''al assistant that provides step-by-step routines and product guidance when asked. '' @
     ''Keep answers concise and user-friendly. Keep conversations to those beauty-related '' @
     ''topics and don'' @ [CHR 0x27] @ ''t respond to unrelated questions.''"

definition system_message :: message where
  "system_message = \<lparr>role = System, content = str system_prompt\<rparr>"

definition appendChatMessage :: "role \<Rightarrow> jsval \<Rightarrow> state \<Rightarrow> state" where
  "appendChatMessage r t s = s\<lparr>chatWindow := chatWindow s @ [(r, t)]\<rparr>"

definition push_message :: "role \<Rightarrow> jsval \<Rightarrow> state \<Rightarrow> state" where
  "push_message r t s =
     s\<lparr>conversationMessages := conversationMessages s @ [\<lparr>role = r, content = t\<rparr>]\<rparr>"

text \<open>
  What the network and the worker do with a request: \<open>fetch\<close> rejects, or answers with a
  status that is not ok and a text (or a text that cannot be read), or answers ok with a
  body that \<open>res.json()\<close> rejects or reads.
\<close>

datatype fetch_outcome =
    FetchRejected string
  | NotOk nat string
  | NotOkTextRejected nat string
  | JsonRejected string
  | Json json

text \<open>
  \<open>sendMessageToOpenAI\<close> in two halves: the call sends the messages as they are at that
  moment; what the awaited call gives back is the reply or a thrown error, of which only
  the message is kept.
\<close>

definition sendMessageToOpenAI_call :: "message list \<Rightarrow> state \<Rightarrow> state" where
  "sendMessageToOpenAI_call messages s = s\<lparr>requests := requests s @ [messages]\<rparr>"

fun sendMessageToOpenAI :: "env \<Rightarrow> fetch_outcome \<Rightarrow> string + jsval" where
  "sendMessageToOpenAI e (FetchRejected m) = Inl m"
| "sendMessageToOpenAI e (NotOk status errText) =
     Inl (''Worker error: '' @ show_nat status @ '' '' @ errText)"
| "sendMessageToOpenAI e (NotOkTextRejected status m) = Inl m"
| "sendMessageToOpenAI e (JsonRejected m) = Inl m"
| "sendMessageToOpenAI e (Json JNull) = Inl (null_read_message e)"
| "sendMessageToOpenAI e (Json (JV data)) = Inr (get_prop data ''content'')"

text \<open>
  Replacing the thinking bubble: the text of the last assistant bubble of the chat
  window is overwritten; with no assistant bubble the reply is appended. Either way the
  reply is assigned to \<open>textContent\<close>, which turns it into text; the handlers below
  take the branch of the thrown error when that throws.
\<close>

fun set_first_assistant :: "jsval \<Rightarrow> bubble list \<Rightarrow> bubble list option" where
  "set_first_assistant t [] = None"
| "set_first_assistant t ((r, x) # bs) =
     (if r = Assistant then Some ((r, t) # bs)
      else map_option (\<lambda>bs'. (r, x) # bs') (set_first_assistant t bs))"

definition show_reply :: "jsval \<Rightarrow> state \<Rightarrow> state" where
  "show_reply aiText s =
     (case set_first_assistant aiText (rev (chatWindow s)) of
        Some w \<Rightarrow> s\<lparr>chatWindow := rev w\<rparr>
      | None \<Rightarrow> appendChatMessage Assistant aiText s)"

definition thinking :: jsval where
  "thinking = str ''...thinking...''"

text \<open>The submit handler of the chat form, up to its \<open>await\<close>.\<close>

definition chatForm_submit :: "env \<Rightarrow> state \<Rightarrow> state" where
  "chatForm_submit e s =
     (let text = String_trim e (userInput s)
      in if text = [] then s
         else
           let s1 = appendChatMessage User (str text) s;
               s2 = push_message User (str text) s1;
               s3 = s2\<lparr>userInput := [], sendBtn_disabled := True\<rparr>;
               s4 = appendChatMessage Assistant thinking s3;
               s5 = sendMessageToOpenAI_call (conversationMessages s4) s4
           in s5\<lparr>chat_awaiting := Suc (chat_awaiting s5)\<rparr>)"

text \<open>The same handler from its \<open>await\<close> on, once the request has settled.\<close>

definition chat_failed :: "string \<Rightarrow> string \<Rightarrow> state \<Rightarrow> state" where
  "chat_failed prefix m s = appendChatMessage Assistant (str (prefix @ m)) (emit (LogError m) s)"

definition chatForm_settled :: "env \<Rightarrow> fetch_outcome \<Rightarrow> state \<Rightarrow> state" where
  "chatForm_settled e outcome s =
     (let s' =
        (case sendMessageToOpenAI e outcome of
           Inr aiText \<Rightarrow>
             if ToString_throws aiText then chat_failed ''Error: '' (coercion_message e) s
             else push_message Assistant aiText (show_reply aiText s)
         | Inl m \<Rightarrow> chat_failed ''Error: '' m s)
      in s'\<lparr>sendBtn_disabled := False, chat_awaiting := chat_awaiting s' - 1\<rparr>)"

text \<open>
  \<open>getSelectedProductsArray\<close>: one object per selected record with its six fields. A
  field whose value is \<open>undefined\<close> is left out of the text by \<open>JSON.stringify\<close>, so it is
  left out of the item.
\<close>

definition item_of :: "val \<Rightarrow> val" where
  "item_of p =
     VObj (List.map_filter (\<lambda>name. map_option (\<lambda>v. (name, v)) (get_prop p name))
             [''id'', ''brand'', ''name'', ''category'', ''image'', ''description''])"

definition getSelectedProductsArray :: "state \<Rightarrow> val list" where
  "getSelectedProductsArray s = map item_of (map_values (selectedProducts s))"

definition advisory :: jsval where
  "advisory = str ''Please select at least one product to generate a routine.''"

definition userInstruction :: "env \<Rightarrow> val list \<Rightarrow> string" where
  "userInstruction e items =
     ''Here are the selected products as JSON. Generate a step-by-step routine using '' @
     ''these products, include application order, timing (AM/PM), any compatibility notes '' @
     ''or cautions, and a short explanation for each step. Respond in plain text.'' @
     [CHR 0x0A, CHR 0x0A] @ ''SELECTED_PRODUCTS_JSON:'' @ [CHR 0x0A] @
     JSON_stringify_indent e (JV (VArr (map JV items)))"

definition label_generating :: string where
  "label_generating = ''Generating'' @ [CHR 0xE2, CHR 0x80, CHR 0xA6]"

definition label_generate_routine :: string where
  "label_generate_routine =
     ''<i class='' @ [CHR 0x22] @ ''fa-solid fa-wand-magic-sparkles'' @ [CHR 0x22] @
     ''></i> Generate Routine''"

text \<open>The click handler of the routine button, up to its \<open>await\<close>.\<close>

definition generateBtn_click :: "env \<Rightarrow> state \<Rightarrow> state" where
  "generateBtn_click e s =
     (let items = getSelectedProductsArray s
      in if length items = 0 then appendChatMessage Assistant advisory s
         else
           let s1 = push_message User (str (userInstruction e items)) s;
               s2 = appendChatMessage User
                      (str (''Generate routine for '' @ show_nat (length items) @
                            '' selected product(s).'')) s1;
               s3 = appendChatMessage Assistant thinking s2;
               s4 = s3\<lparr>generateBtn_disabled := True, generateBtn_label := label_generating\<rparr>;
               s5 = sendMessageToOpenAI_call (conversationMessages s4) s4
           in s5\<lparr>generate_awaiting := Suc (generate_awaiting s5)\<rparr>)"

definition generateBtn_settled :: "env \<Rightarrow> fetch_outcome \<Rightarrow> state \<Rightarrow> state" where
  "generateBtn_settled e outcome s =
     (let s' =
        (case sendMessageToOpenAI e outcome of
           Inr aiText \<Rightarrow>
             if ToString_throws aiText
             then chat_failed ''Error generating routine: '' (coercion_message e) s
             else push_message Assistant aiText (show_reply aiText s)
         | Inl m \<Rightarrow> chat_failed ''Error generating routine: '' m s)
      in s'\<lparr>generateBtn_disabled := False, generateBtn_label := label_generate_routine,
            generate_awaiting := generate_awaiting s' - 1\<rparr>)"

section \<open>The running page\<close>

text \<open>
  The page as the script finds it, with \<open>raw\<close> the item left in storage by an earlier
  visit, and the state once the script has run. The call of \<open>loadSelectedFromStorage\<close>
  stands at the top level, before the lines that attach the handlers of the category
  filter, the chat form and the routine button: an error that leaves it ends the script
  there.
\<close>

definition fresh_page :: "string option \<Rightarrow> state" where
  "fresh_page raw =
     \<lparr>selectedProducts = [], lastDisplayedProducts = None, localStorage_item = raw,
      selectedProductsList = Placeholder, conversationMessages = [system_message],
      chatWindow = [], userInput = [], sendBtn_disabled = False,
      generateBtn_disabled = False, generateBtn_label = label_generate_routine,
      requests = [], effects = [], chat_awaiting = 0, generate_awaiting = 0,
      listeners_attached = False\<rparr>"

definition startup :: "env \<Rightarrow> string option \<Rightarrow> state \<times> error option" where
  "startup e raw =
     (case loadSelectedFromStorage e (fresh_page raw) of
        (s, None) \<Rightarrow> (s\<lparr>listeners_attached := True\<rparr>, None)
      | (s, Some err) \<Rightarrow> (s, Some err))"

text \<open>
  What can happen next. A handler runs to its end, to its \<open>await\<close> or to an error that
  nothing catches, before the next event is taken; the state it leaves is what counts.
  A request can only settle while its handler is waiting for it, and no handler runs
  on a page whose script did not reach its end. A submission or a click is taken for any
  id and whether or not its button is disabled, so the states reached here include
  every state the page can reach.
\<close>

datatype event =
    CardClick int
  | ChipRemove int
  | CategoryLoaded json string
  | Typed string
  | ChatSubmit
  | ChatSettled fetch_outcome
  | GenerateClick
  | GenerateSettled fetch_outcome

fun dispatch :: "env \<Rightarrow> event \<Rightarrow> state \<Rightarrow> state option" where
  "dispatch e (CardClick productId) s = Some (fst (toggleSelect e productId s))"
| "dispatch e (ChipRemove removeId) s = Some (fst (chip_remove_click e removeId s))"
| "dispatch e (CategoryLoaded data c) s = Some (fst (categoryFilter_change e data c s))"
| "dispatch e (Typed t) s = Some (s\<lparr>userInput := t\<rparr>)"
| "dispatch e ChatSubmit s = Some (chatForm_submit e s)"
| "dispatch e (ChatSettled outcome) s =
     (if chat_awaiting s = 0 then None else Some (chatForm_settled e outcome s))"
| "dispatch e GenerateClick s = Some (generateBtn_click e s)"
| "dispatch e (GenerateSettled outcome) s =
     (if generate_awaiting s = 0 then None else Some (generateBtn_settled e outcome s))"

definition handle :: "env \<Rightarrow> event \<Rightarrow> state \<Rightarrow> state option" where
  "handle e ev s =
     (case ev of
        Typed t \<Rightarrow> dispatch e ev s
      | _ \<Rightarrow> if listeners_attached s then dispatch e ev s else None)"

inductive reachable :: "env \<Rightarrow> state \<Rightarrow> bool" for e :: env where
  reachable_startup: "reachable e (fst (startup e raw))"
| reachable_handle: "reachable e s \<Longrightarrow> handle e ev s = Some s' \<Longrightarrow> reachable e s'"

fun run :: "env \<Rightarrow> event list \<Rightarrow> state \<Rightarrow> state option" where
  "run e [] s = Some s"
| "run e (ev # evs) s = (case handle e ev s of None \<Rightarrow> None | Some s' \<Rightarrow> run e evs s')"

section \<open>Notions used by the properties\<close>

definition selected :: "int \<Rightarrow> state \<Rightarrow> bool" where
  "selected productId s = map_has (KNum productId) (selectedProducts s)"

text \<open>The state a click on the card of \<open>productId\<close> leaves.\<close>

definition toggled :: "env \<Rightarrow> int \<Rightarrow> state \<Rightarrow> state" where
  "toggled e productId s = fst (toggleSelect e productId s)"

text \<open>A selection of which every chip can be built.\<close>

definition renders :: "store \<Rightarrow> bool" where
  "renders m = (\<not> list_ex chip_throws (map_values m))"

text \<open>
  Events that start no submission and settle no request: clicks on cards and chips,
  a change of category, typing.
\<close>

fun quiet :: "event \<Rightarrow> bool" where
  "quiet (CardClick productId) = True"
| "quiet (ChipRemove removeId) = True"
| "quiet (CategoryLoaded data c) = True"
| "quiet (Typed t) = True"
| "quiet ChatSubmit = False"
| "quiet (ChatSettled outcome) = False"
| "quiet GenerateClick = False"
| "quiet (GenerateSettled outcome) = False"


text \<open>
  A selection in which every record is filed under its own \<open>id\<close>, a primitive value, and
  no key occurs twice: what \<open>toggleSelect\<close> and \<open>loadSelectedFromStorage\<close> build from
  product records.
\<close>

definition keyed_by_id :: "store \<Rightarrow> bool" where
  "keyed_by_id m =
     (distinct (map fst m) \<and>
      list_all (\<lambda>(k, p). (case k of KRef i \<Rightarrow> False | _ \<Rightarrow> k = key_of 0 (get_prop p ''id''))) m)"

definition is_list :: "json \<Rightarrow> bool" where
  "is_list j = (case j of JV (VArr arr) \<Rightarrow> True | _ \<Rightarrow> False)"

text \<open>
  An item that gives no list: storage cannot be read, the item is missing or empty, it
  does not parse, or it parses to something that is not a list.
\<close>

definition unusable_item :: "env \<Rightarrow> string option \<Rightarrow> bool" where
  "unusable_item e raw =
     (getItem_throws e \<or>
      (case raw of
         None \<Rightarrow> True
       | Some t \<Rightarrow> t = [] \<or> (case JSON_parse e t of None \<Rightarrow> True | Some j \<Rightarrow> \<not> is_list j)))"

text \<open>
  The shape of the history: the fixed system message first, and no other message with
  the system role.
\<close>

definition starts_with_system :: "message list \<Rightarrow> bool" where
  "starts_with_system ms =
     (case ms of [] \<Rightarrow> False
      | m # rest \<Rightarrow> m = system_message \<and> list_all (\<lambda>m'. role m' \<noteq> System) rest)"

text \<open>The entries the handlers push onto the history.\<close>

definition user_turn :: "string \<Rightarrow> message" where
  "user_turn t = \<lparr>role = User, content = str t\<rparr>"

definition assistant_turn :: "jsval \<Rightarrow> message" where
  "assistant_turn t = \<lparr>role = Assistant, content = t\<rparr>"

text \<open>Two states that differ at most in the bubbles of the chat window.\<close>

definition same_but_chat :: "state \<Rightarrow> state \<Rightarrow> bool" where
  "same_but_chat s t = (s\<lparr>chatWindow := []\<rparr> = t\<lparr>chatWindow := []\<rparr>)"

subsection \<open>A small catalogue and a platform to run it on\<close>

definition cleanser :: val where
  "cleanser = VObj [(''id'', JV (VNum 1)), (''name'', JV (VStr ''Foaming Cleanser'')),
                    (''brand'', JV (VStr ''CeraVe'')), (''category'', JV (VStr ''cleanser''))]"

definition cleanser_list_text :: string where
  \<open>cleanser_list_text =
     ''[{"id":1,"name":"Foaming Cleanser","brand":"CeraVe","category":"cleanser"}]''\<close>

text \<open>A stored record whose name is an object with a \<open>toString\<close> property.\<close>

definition odd_name :: val where
  "odd_name = VObj [(''id'', JV (VNum 1)),
                    (''name'', JV (VObj [(''toString'', JV (VNum 1))])),
                    (''category'', JV (VStr ''cleanser''))]"

definition odd_name_list_text :: string where
  \<open>odd_name_list_text = ''[{"id":1,"name":{"toString":1},"category":"cleanser"}]''\<close>


definition sample_catalog :: json where
  "sample_catalog = JV (VObj [(''products'', JV (VArr [JV cleanser]))])"

text \<open>
  The platform on the texts and values of the examples: storage that always takes the
  write, and the built-in functions tabulated where the examples call them.
\<close>

definition sample_env :: env where
  "sample_env =
     \<lparr>JSON_stringify = (\<lambda>j. if j = JV (VArr [JV cleanser]) then cleanser_list_text
                              else if j = JV (VArr [JV odd_name]) then odd_name_list_text
                              else if j = JV (VArr []) then ''[]'' else ''null''),
      JSON_stringify_indent = (\<lambda>j. if j = JV (VArr []) then ''[]'' else ''[ ]''),
      JSON_parse = (\<lambda>t. if t = cleanser_list_text then Some (JV (VArr [JV cleanser]))
                          else if t = ''[]'' then Some (JV (VArr []))
                          else if t = ''5'' then Some (JV (VNum 5))
                          else if t = ''[1]'' then Some (JV (VArr [JV (VNum 1)]))
                          else if t = odd_name_list_text then Some (JV (VArr [JV odd_name]))
                          else None),
      String_trim = (\<lambda>t. rev (dropWhile (\<lambda>c. c = CHR '' '')
                                  (rev (dropWhile (\<lambda>c. c = CHR '' '') t)))),
      setItem_throws = (\<lambda>t. False),
      getItem_throws = False,
      selector_throws = (\<lambda>k. None),
      null_read_message = ''Cannot read properties of null'',
      coercion_message = ''Cannot convert object to primitive value''\<rparr>"

text \<open>The same platform with storage that refuses every write.\<close>

definition full_storage_env :: env where
  "full_storage_env = sample_env\<lparr>setItem_throws := (\<lambda>t. True)\<rparr>"

text \<open>The cleanser category shown after a start on empty storage, and its one card clicked.\<close>

definition cleanser_shown :: "env \<Rightarrow> state" where
  "cleanser_shown e =
     fst (categoryFilter_change e sample_catalog ''cleanser'' (fst (startup e None)))"

definition one_selected :: state where
  "one_selected = toggled sample_env 1 (cleanser_shown sample_env)"


text \<open>A start on storage that holds the cleanser: it is selected, and no card is shown.\<close>

definition stored_not_shown :: state where
  "stored_not_shown = fst (startup sample_env (Some cleanser_list_text))"

text \<open>The cleanser selected and a message typed; a reply of the worker.\<close>

definition ready_to_chat :: state where
  "ready_to_chat = one_selected\<lparr>userInput := '' hi ''\<rparr>"

definition hello_reply :: fetch_outcome where
  "hello_reply = Json (JV (VObj [(''content'', JV (VStr ''hello''))]))"

text \<open>The same selection on the platform whose storage refuses every write.\<close>

definition one_selected_unsaved :: state where
  "one_selected_unsaved = toggled full_storage_env 1 (cleanser_shown full_storage_env)"

section \<open>Properties of the selection\<close>

lemma map_has_delete [simp]: "\<not> map_has k (map_delete k m)"
  by (induction m) (auto split: if_splits)

lemma map_has_set [simp]: "map_has k (map_set k v m)"
  by (induction m) auto

lemma renders_Nil [simp]: "renders []"
  by (simp add: renders_def map_values_def)

lemma render_ok:
  "renders (selectedProducts s) \<Longrightarrow>
   renderSelectedProducts s =
     (emit (Render (project (selectedProducts s)))
        (s\<lparr>selectedProductsList := project (selectedProducts s)\<rparr>), None)"
  by (simp add: renderSelectedProducts_def renders_def project_def Let_def)

lemma render_throws:
  "\<not> renders (selectedProducts s) \<Longrightarrow> renderSelectedProducts s = (s, Some TypeError)"
  by (auto simp: renderSelectedProducts_def renders_def map_values_def)

lemma selectedProducts_emit [simp]: "selectedProducts (emit x s) = selectedProducts s"
  by (simp add: emit_def)

lemma selectedProducts_render [simp]:
  "selectedProducts (fst (renderSelectedProducts s)) = selectedProducts s"
  by (cases "renders (selectedProducts s)") (simp_all add: render_ok render_throws)

lemma selectedProducts_save [simp]:
  "selectedProducts (saveSelectedProducts e s) = selectedProducts s"
  by (simp add: saveSelectedProducts_def Let_def)

lemma displayed_emit [simp]: "displayed (emit x s) = displayed s"
  by (simp add: displayed_def emit_def)

lemma displayed_render [simp]: "displayed (fst (renderSelectedProducts s)) = displayed s"
  by (cases "renders (selectedProducts s)") (simp_all add: render_ok render_throws displayed_def emit_def)

lemma displayed_save [simp]: "displayed (saveSelectedProducts e s) = displayed s"
  by (simp add: saveSelectedProducts_def displayed_def emit_def Let_def)

lemma displayed_selectedProducts_update [simp]:
  "displayed (s\<lparr>selectedProducts := m\<rparr>) = displayed s"
  by (simp add: displayed_def)

lemma displayed_toggled: "displayed (toggled e productId s) = displayed s"
  by (simp add: toggled_def toggleSelect_def Let_def split: option.splits)

lemma toggled_flips:
  "find_product productId (displayed s) = Some p \<Longrightarrow>
   selected productId (toggled e productId s) = (\<not> selected productId s)"
  by (simp add: toggled_def toggleSelect_def selected_def Let_def)

lemma displayed_toggles: "displayed ((toggled e productId ^^ n) s) = displayed s"
  by (induction n) (simp_all add: displayed_toggled)


lemma selectedProductsList_save [simp]:
  "selectedProductsList (saveSelectedProducts e s) = selectedProductsList s"
  by (simp add: saveSelectedProducts_def emit_def Let_def)

lemma selectedProducts_load_failed [simp]:
  "selectedProducts (fst (load_failed s)) = selectedProducts s"
  by (simp add: load_failed_def)

lemma selectedProducts_try_render [simp]:
  "selectedProducts (fst (try_render s)) = selectedProducts s"
  by (simp add: try_render_def split: prod.splits option.splits)
     (metis fst_conv selectedProducts_render)

lemma load_failed_ok:
  "renders (selectedProducts s) \<Longrightarrow>
   load_failed s =
     (emit (Render (project (selectedProducts s)))
        (emit (Warn ''Could not load selected products'') s
           \<lparr>selectedProductsList := project (selectedProducts s)\<rparr>), None)"
  by (simp add: load_failed_def render_ok)

lemma try_render_ok:
  "renders (selectedProducts s) \<Longrightarrow>
   try_render s =
     (emit (Render (project (selectedProducts s)))
        (s\<lparr>selectedProductsList := project (selectedProducts s)\<rparr>), None)"
  by (simp add: try_render_def render_ok)

lemma project_Nil [simp]: "project [] = Placeholder"
  by (simp add: project_def)

lemma map_set_new: "\<not> map_has k m \<Longrightarrow> map_set k v m = m @ [(k, v)]"
  by (induction m) auto

lemma map_has_append [simp]: "map_has k (m @ m') = (map_has k m \<or> map_has k m')"
  by (induction m) auto

lemma key_of_keyed:
  "(case k of KRef i \<Rightarrow> False | _ \<Rightarrow> k = key_of 0 v) \<Longrightarrow> key_of i v = k"
  by (cases "(i, v)" rule: key_of.cases) (auto split: key.splits)

lemma forEach_set_values:
  "keyed_by_id m \<Longrightarrow> \<forall>k \<in> fst ` set m. \<not> map_has k acc \<Longrightarrow>
   forEach_set i (map JV (map_values m)) acc = (acc @ m, None)"
proof (induction m arbitrary: acc i)
  case Nil
  show ?case by (simp add: map_values_def)
next
  case (Cons kp m)
  obtain k p where kp: "kp = (k, p)" by (cases kp)
  from Cons.prems(1) have key: "key_of i (get_prop p ''id'') = k"
    by (auto simp: keyed_by_id_def kp intro: key_of_keyed)
  from Cons.prems(2) have new: "\<not> map_has k acc" by (simp add: kp)
  from Cons.prems(1) have rest: "keyed_by_id m" and fresh: "k \<notin> fst ` set m"
    by (auto simp: keyed_by_id_def kp)
  have "\<forall>k' \<in> fst ` set m. \<not> map_has k' (acc @ [(k, p)])"
    using Cons.prems(2) fresh by (auto simp: kp)
  from Cons.IH [OF rest this] show ?case
    by (simp add: kp map_values_def key map_set_new [OF new])
qed

text \<open>Loading a stored list of a selection keyed by id gives that selection, whatever was selected before.\<close>

lemma load_stored:
  assumes "keyed_by_id m" and "\<not> getItem_throws e"
    and "localStorage_item t = Some txt" and "txt \<noteq> []"
    and "JSON_parse e txt = Some (values_array m)"
  shows "selectedProducts (fst (loadSelectedFromStorage e t)) = m"
proof -
  have each: "forEach_set 0 (map JV (map_values m)) [] = (m, None)"
    using forEach_set_values [OF assms(1), of "[]" 0] by simp
  obtain s' r where r: "renderSelectedProducts (t\<lparr>selectedProducts := m\<rparr>) = (s', r)"
    by (cases "renderSelectedProducts (t\<lparr>selectedProducts := m\<rparr>)")
  then have s': "selectedProducts s' = m"
    using selectedProducts_render [of "t\<lparr>selectedProducts := m\<rparr>"] by simp
  show ?thesis
    using assms(2-5) each r s'
    by (simp add: loadSelectedFromStorage_def values_array_def split: option.splits)
qed

lemma selectedProducts_startup:
  "selectedProducts (fst (startup e raw)) = selectedProducts (fst (loadSelectedFromStorage e (fresh_page raw)))"
  by (simp add: startup_def split: prod.splits option.splits)

text \<open>
  C1 (as the code has it). For a product id that the displayed list resolves, \<open>n\<close> clicks
  on its card flip its membership in the selection exactly when \<open>n\<close> is odd: from an
  id that is not selected, an even number of clicks leaves it unselected and an odd
  number leaves it selected.
\<close>

theorem toggle_parity:
  assumes "find_product productId (displayed s) = Some p"
  shows "selected productId ((toggled e productId ^^ n) s) =
           (selected productId s \<noteq> odd n) \<and>
         (\<not> selected productId s \<longrightarrow>
            selected productId ((toggled e productId ^^ n) s) = odd n)"
proof -
  have "selected productId ((toggled e productId ^^ n) s) =
          (selected productId s \<noteq> odd n)"
  proof (induction n)
    case 0
    show ?case by simp
  next
    case (Suc n)
    have "find_product productId (displayed ((toggled e productId ^^ n) s)) = Some p"
      using assms by (simp add: displayed_toggles)
    then show ?case using Suc by (auto simp: toggled_flips)
  qed
  then show ?thesis by simp
qed

theorem toggle_parity_witness:
  "find_product 1 (displayed (cleanser_shown sample_env)) = Some cleanser \<and>
   \<not> selected 1 (cleanser_shown sample_env) \<and>
   selected 1 ((toggled sample_env 1 ^^ 3) (cleanser_shown sample_env)) = odd (3::nat)"
proof -
  let ?s = "cleanser_shown sample_env"
  have shown: "find_product 1 (displayed ?s) = Some cleanser"
    by code_simp
  have unselected: "\<not> selected 1 ?s"
    by code_simp
  from toggle_parity [OF shown, where e = sample_env and n = 3] unselected
  have "selected 1 ((toggled sample_env 1 ^^ 3) ?s) = odd (3::nat)"
    by blast
  with shown unselected show ?thesis by blast
qed

text \<open>
  C1 as stated fails for an id that no displayed product has: one click, an odd number,
  leaves it unselected.
\<close>

theorem toggle_parity_counterexample:
  "selected 7 ((toggled sample_env 7 ^^ 1) (fst (startup sample_env None))) \<noteq> odd (1::nat)"
  by code_simp

text \<open>
  C9. When the displayed list has no product with the id, \<open>toggleSelect\<close> returns the
  state it was given and throws nothing: the selection, the stored item and the chips
  are unchanged, also when the id is in the selection.
\<close>

theorem toggle_unresolvable_unchanged:
  assumes "find_product productId (displayed s) = None"
  shows "toggleSelect e productId s = (s, None) \<and>
         selectedProducts (fst (toggleSelect e productId s)) = selectedProducts s \<and>
         localStorage_item (fst (toggleSelect e productId s)) = localStorage_item s \<and>
         selectedProductsList (fst (toggleSelect e productId s)) = selectedProductsList s"
  using assms by (simp add: toggleSelect_def)

theorem toggle_unresolvable_unchanged_witness:
  "find_product 1 (displayed stored_not_shown) = None \<and> selected 1 stored_not_shown \<and>
   toggleSelect sample_env 1 stored_not_shown = (stored_not_shown, None)"
proof -
  have hidden: "find_product 1 (displayed stored_not_shown) = None"
    by code_simp
  have chosen: "selected 1 stored_not_shown"
    by code_simp
  from toggle_unresolvable_unchanged [OF hidden, where e = sample_env] hidden chosen
  show ?thesis by blast
qed

text \<open>
  C2 (as the code has it). Take a selection keyed by id, on a platform whose storage
  takes the write and gives it back and whose \<open>JSON.parse\<close> reads back the list that
  \<open>JSON.stringify\<close> wrote. Then a load after the save gives the same entries again,
  in the same order, whatever the selection holds when the load starts (\<open>m0\<close>), and so
  does the start of the page on the item the save left in storage.
\<close>

theorem save_load_roundtrip:
  assumes "keyed_by_id (selectedProducts s)"
    and "\<not> getItem_throws e"
    and "\<not> setItem_throws e (JSON_stringify e (values_array (selectedProducts s)))"
    and "JSON_stringify e (values_array (selectedProducts s)) \<noteq> []"
    and "JSON_parse e (JSON_stringify e (values_array (selectedProducts s)))
           = Some (values_array (selectedProducts s))"
  shows "selectedProducts
           (fst (loadSelectedFromStorage e (saveSelectedProducts e s\<lparr>selectedProducts := m0\<rparr>)))
           = selectedProducts s \<and>
         selectedProducts (fst (startup e (localStorage_item (saveSelectedProducts e s))))
           = selectedProducts s"
proof -
  have item: "localStorage_item (saveSelectedProducts e s)
                = Some (JSON_stringify e (values_array (selectedProducts s)))"
    using assms(3) by (simp add: saveSelectedProducts_def Let_def emit_def)
  have "selectedProducts
          (fst (loadSelectedFromStorage e (saveSelectedProducts e s\<lparr>selectedProducts := m0\<rparr>)))
          = selectedProducts s"
    by (rule load_stored [OF assms(1,2) _ assms(4,5)]) (simp add: item)
  moreover
  have "selectedProducts
          (fst (loadSelectedFromStorage e (fresh_page (localStorage_item (saveSelectedProducts e s)))))
          = selectedProducts s"
    by (rule load_stored [OF assms(1,2) _ assms(4,5)]) (simp add: item fresh_page_def)
  ultimately show ?thesis
    by (simp add: selectedProducts_startup)
qed

theorem save_load_roundtrip_witness:
  "keyed_by_id (selectedProducts one_selected) \<and> selectedProducts one_selected \<noteq> [] \<and>
   selectedProducts
     (fst (loadSelectedFromStorage sample_env
             (saveSelectedProducts sample_env one_selected\<lparr>selectedProducts := []\<rparr>)))
     = [(KNum 1, cleanser)] \<and>
   selectedProducts
     (fst (startup sample_env (localStorage_item (saveSelectedProducts sample_env one_selected))))
     = [(KNum 1, cleanser)]"
proof -
  have sel: "selectedProducts one_selected = [(KNum 1, cleanser)]"
    by code_simp
  have keyed: "keyed_by_id (selectedProducts one_selected)"
    by code_simp
  have "selectedProducts
          (fst (loadSelectedFromStorage sample_env
                  (saveSelectedProducts sample_env one_selected\<lparr>selectedProducts := []\<rparr>)))
          = selectedProducts one_selected \<and>
        selectedProducts
          (fst (startup sample_env
                  (localStorage_item (saveSelectedProducts sample_env one_selected))))
          = selectedProducts one_selected"
  proof (rule save_load_roundtrip [OF keyed])
    show "\<not> getItem_throws sample_env"
      by code_simp
    show "\<not> setItem_throws sample_env
              (JSON_stringify sample_env (values_array (selectedProducts one_selected)))"
      by code_simp
    show "JSON_stringify sample_env (values_array (selectedProducts one_selected)) \<noteq> []"
      by code_simp
    show "JSON_parse sample_env
            (JSON_stringify sample_env (values_array (selectedProducts one_selected)))
            = Some (values_array (selectedProducts one_selected))"
      by code_simp
  qed
  with keyed sel show ?thesis by simp
qed

text \<open>
  C2 as stated fails when storage refuses the write: the save warns and leaves no item,
  and the next start of the page has an empty selection.
\<close>

theorem save_load_roundtrip_counterexample:
  "selectedProducts one_selected_unsaved = [(KNum 1, cleanser)] \<and>
   selectedProducts
     (fst (startup full_storage_env
             (localStorage_item (saveSelectedProducts full_storage_env one_selected_unsaved))))
     = []"
  by code_simp




text \<open>
  C8 (as the code has it). When the item is missing or empty, \<open>loadSelectedFromStorage\<close>
  leaves the selection as it is, renders it and logs nothing. When storage cannot be
  read or the item cannot be parsed it leaves the selection as it is, logs a warning and
  renders. In both cases this is so when the chips of that selection can be built, as
  those of the empty selection at the start of the page can. When the item parses to
  something that is not a list it empties the selection, logs a warning and renders the
  placeholder. In none of these cases does an error reach the caller, and at the start
  of the page each of them gives the empty selection and lets the script run to its end.
\<close>

theorem load_degraded:
  "(\<not> getItem_throws e \<and> (localStorage_item s = None \<or> localStorage_item s = Some []) \<and>
    renders (selectedProducts s) \<longrightarrow>
      selectedProducts (fst (loadSelectedFromStorage e s)) = selectedProducts s \<and>
      effects (fst (loadSelectedFromStorage e s)) =
        effects s @ [Render (project (selectedProducts s))] \<and>
      snd (loadSelectedFromStorage e s) = None) \<and>
   ((getItem_throws e \<or>
     (localStorage_item s = Some raw \<and> raw \<noteq> [] \<and> JSON_parse e raw = None)) \<and>
    renders (selectedProducts s) \<longrightarrow>
      selectedProducts (fst (loadSelectedFromStorage e s)) = selectedProducts s \<and>
      effects (fst (loadSelectedFromStorage e s)) =
        effects s @ [Warn ''Could not load selected products'',
                     Render (project (selectedProducts s))] \<and>
      snd (loadSelectedFromStorage e s) = None) \<and>
   (\<not> getItem_throws e \<and> localStorage_item s = Some raw \<and> raw \<noteq> [] \<and>
    JSON_parse e raw = Some j \<and> \<not> is_list j \<longrightarrow>
      selectedProducts (fst (loadSelectedFromStorage e s)) = [] \<and>
      effects (fst (loadSelectedFromStorage e s)) =
        effects s @ [Warn ''Could not load selected products'', Render Placeholder] \<and>
      snd (loadSelectedFromStorage e s) = None) \<and>
   (unusable_item e raw0 \<longrightarrow>
      selectedProducts (fst (startup e raw0)) = [] \<and> snd (startup e raw0) = None \<and>
      listeners_attached (fst (startup e raw0)))"
proof -
  have missing: "\<not> getItem_throws e \<and> (localStorage_item s = None \<or> localStorage_item s = Some []) \<and>
    renders (selectedProducts s) \<longrightarrow>
      selectedProducts (fst (loadSelectedFromStorage e s)) = selectedProducts s \<and>
      effects (fst (loadSelectedFromStorage e s)) =
        effects s @ [Render (project (selectedProducts s))] \<and>
      snd (loadSelectedFromStorage e s) = None"
    by (auto simp: loadSelectedFromStorage_def try_render_ok emit_def)
  have unread: "(getItem_throws e \<or>
     (localStorage_item s = Some raw \<and> raw \<noteq> [] \<and> JSON_parse e raw = None)) \<and>
    renders (selectedProducts s) \<longrightarrow>
      selectedProducts (fst (loadSelectedFromStorage e s)) = selectedProducts s \<and>
      effects (fst (loadSelectedFromStorage e s)) =
        effects s @ [Warn ''Could not load selected products'',
                     Render (project (selectedProducts s))] \<and>
      snd (loadSelectedFromStorage e s) = None"
    by (auto simp: loadSelectedFromStorage_def load_failed_ok emit_def)
  have other: "\<not> getItem_throws e \<and> localStorage_item s = Some raw \<and> raw \<noteq> [] \<and>
    JSON_parse e raw = Some j \<and> \<not> is_list j \<longrightarrow>
      selectedProducts (fst (loadSelectedFromStorage e s)) = [] \<and>
      effects (fst (loadSelectedFromStorage e s)) =
        effects s @ [Warn ''Could not load selected products'', Render Placeholder] \<and>
      snd (loadSelectedFromStorage e s) = None"
    by (auto simp: loadSelectedFromStorage_def load_failed_ok is_list_def emit_def
             split: json.splits val.splits)
  have start: "unusable_item e raw0 \<longrightarrow>
      selectedProducts (fst (startup e raw0)) = [] \<and> snd (startup e raw0) = None \<and>
      listeners_attached (fst (startup e raw0))"
    by (auto simp: unusable_item_def startup_def loadSelectedFromStorage_def load_failed_ok
                   try_render_ok is_list_def fresh_page_def emit_def
             split: option.splits json.splits val.splits)
  from missing unread other start show ?thesis by blast
qed

theorem load_degraded_witness:
  "effects (fst (loadSelectedFromStorage sample_env (fresh_page (Some ''{'')))) =
     [Warn ''Could not load selected products'', Render Placeholder] \<and>
   snd (loadSelectedFromStorage sample_env (fresh_page (Some ''{''))) = None \<and>
   selectedProducts (fst (loadSelectedFromStorage sample_env
                       (fresh_page (Some ''5'')\<lparr>selectedProducts := [(KNum 1, cleanser)]\<rparr>))) = [] \<and>
   effects (fst (loadSelectedFromStorage sample_env
              (fresh_page (Some ''5'')\<lparr>selectedProducts := [(KNum 1, cleanser)]\<rparr>))) =
     [Warn ''Could not load selected products'', Render Placeholder] \<and>
   selectedProducts (fst (loadSelectedFromStorage sample_env
                       (fresh_page (Some [])\<lparr>selectedProducts := [(KNum 1, cleanser)]\<rparr>))) =
     [(KNum 1, cleanser)] \<and>
   unusable_item sample_env (Some ''5'') \<and>
   selectedProducts (fst (startup sample_env (Some ''5''))) = [] \<and>
   snd (startup sample_env (Some ''5'')) = None"
proof -
  let ?broken = "fresh_page (Some ''{'')"
  let ?number = "fresh_page (Some ''5'')\<lparr>selectedProducts := [(KNum 1, cleanser)]\<rparr>"
  let ?empty = "fresh_page (Some [])\<lparr>selectedProducts := [(KNum 1, cleanser)]\<rparr>"
  have h1: "(getItem_throws sample_env \<or>
             (localStorage_item ?broken = Some ''{'' \<and> ''{'' \<noteq> [] \<and>
              JSON_parse sample_env ''{'' = None)) \<and> renders (selectedProducts ?broken)"
    by code_simp
  have h2: "\<not> getItem_throws sample_env \<and> localStorage_item ?number = Some ''5'' \<and> ''5'' \<noteq> [] \<and>
            JSON_parse sample_env ''5'' = Some (JV (VNum 5)) \<and> \<not> is_list (JV (VNum 5))"
    by code_simp
  have h3: "\<not> getItem_throws sample_env \<and>
            (localStorage_item ?empty = None \<or> localStorage_item ?empty = Some []) \<and>
            renders (selectedProducts ?empty)"
    by code_simp
  have h4: "unusable_item sample_env (Some ''5'')"
    by code_simp
  have r1: "effects ?broken @ [Warn ''Could not load selected products'',
                               Render (project (selectedProducts ?broken))] =
              [Warn ''Could not load selected products'', Render Placeholder]"
    by code_simp
  have r2: "effects ?number = []"
    by code_simp
  have r3: "selectedProducts ?empty = [(KNum 1, cleanser)]"
    by code_simp
  from load_degraded [where e = sample_env and s = ?broken and raw = "''{''"] h1
  have c1: "effects (fst (loadSelectedFromStorage sample_env ?broken)) =
              effects ?broken @ [Warn ''Could not load selected products'',
                                 Render (project (selectedProducts ?broken))] \<and>
            snd (loadSelectedFromStorage sample_env ?broken) = None"
    by blast
  from load_degraded [where e = sample_env and s = ?number and raw = "''5''" and j = "JV (VNum 5)"] h2
  have c2: "selectedProducts (fst (loadSelectedFromStorage sample_env ?number)) = [] \<and>
            effects (fst (loadSelectedFromStorage sample_env ?number)) =
              effects ?number @ [Warn ''Could not load selected products'', Render Placeholder]"
    by blast
  from load_degraded [where e = sample_env and s = ?empty] h3
  have c3: "selectedProducts (fst (loadSelectedFromStorage sample_env ?empty)) =
              selectedProducts ?empty"
    by blast
  from load_degraded [where e = sample_env and ?raw0.0 = "Some ''5''"] h4
  have c4: "selectedProducts (fst (startup sample_env (Some ''5''))) = [] \<and>
            snd (startup sample_env (Some ''5'')) = None"
    by blast
  from c1 c2 c3 c4 h4 show ?thesis
    by (simp only: r1 r2 r3 append_Nil simp_thms)
qed

text \<open>
  C8 as stated fails twice: a missing item logs no warning, and the malformed item
  \<open>[1]\<close> leaves a selection of one entry and logs no warning.
\<close>

theorem load_degraded_counterexample:
  "effects (fst (loadSelectedFromStorage sample_env (fresh_page None))) = [Render Placeholder] \<and>
   selectedProducts (fst (loadSelectedFromStorage sample_env (fresh_page (Some ''[1]''))))
     = [(KUndefined, VNum 1)] \<and>
   effects (fst (loadSelectedFromStorage sample_env (fresh_page (Some ''[1]''))))
     = [Render (Chips [(None, None, None)])]"
  by code_simp

text \<open>
  A stored list whose record has a name that cannot be turned into text: the render in
  the \<open>try\<close> block throws, the render in the \<open>catch\<close> block throws again, and the error
  ends the script before any handler is attached.
\<close>

lemma load_error_escapes:
  "snd (startup sample_env (Some odd_name_list_text)) = Some TypeError \<and>
   selectedProducts (fst (startup sample_env (Some odd_name_list_text))) = [(KNum 1, odd_name)] \<and>
   \<not> listeners_attached (fst (startup sample_env (Some odd_name_list_text)))"
  by code_simp

section \<open>Properties of the conversation\<close>

lemmas chat_defs =
  chatForm_submit_def chatForm_settled_def generateBtn_click_def generateBtn_settled_def
  chat_failed_def appendChatMessage_def push_message_def sendMessageToOpenAI_call_def
  show_reply_def emit_def getSelectedProductsArray_def map_values_def user_turn_def
  assistant_turn_def

lemma log_emit [simp]: "conversationMessages (emit x s) = conversationMessages s"
  by (simp add: emit_def)

lemma log_render [simp]:
  "conversationMessages (fst (renderSelectedProducts s)) = conversationMessages s"
  by (cases "renders (selectedProducts s)") (simp_all add: render_ok render_throws)

lemma log_save [simp]: "conversationMessages (saveSelectedProducts e s) = conversationMessages s"
  by (simp add: saveSelectedProducts_def Let_def)

lemma log_load_failed [simp]: "conversationMessages (fst (load_failed s)) = conversationMessages s"
  by (simp add: load_failed_def)

lemma log_try_render [simp]: "conversationMessages (fst (try_render s)) = conversationMessages s"
  using log_render [of s]
  by (cases "renderSelectedProducts s") (auto simp: try_render_def split: option.splits)

lemma log_load [simp]:
  "conversationMessages (fst (loadSelectedFromStorage e s)) = conversationMessages s"
proof -
  have "conversationMessages (fst (case renderSelectedProducts t of
            (s', Some err) \<Rightarrow> load_failed s'
          | (s', None) \<Rightarrow> (case markSelectedCards e s' of
                              None \<Rightarrow> (s', None) | Some err \<Rightarrow> load_failed s')))
          = conversationMessages t" for t
    using log_render [of t]
    by (cases "renderSelectedProducts t") (auto split: option.splits)
  then show ?thesis
    by (simp add: loadSelectedFromStorage_def split: option.splits json.splits val.splits prod.splits)
qed

lemma log_toggle [simp]:
  "conversationMessages (fst (toggleSelect e productId s)) = conversationMessages s"
  by (simp add: toggleSelect_def Let_def split: option.splits)

lemma log_chip_remove [simp]:
  "conversationMessages (fst (chip_remove_click e removeId s)) = conversationMessages s"
  using log_render [of "s\<lparr>selectedProducts := map_delete (KNum removeId) (selectedProducts s)\<rparr>"]
  by (cases "renderSelectedProducts
               (s\<lparr>selectedProducts := map_delete (KNum removeId) (selectedProducts s)\<rparr>)")
     (auto simp: chip_remove_click_def split: option.splits)

lemma log_category [simp]:
  "conversationMessages (fst (categoryFilter_change e data c s)) = conversationMessages s"
  by (simp add: categoryFilter_change_def displayProducts_def Let_def
           split: json.splits val.splits option.splits sum.splits)

lemma log_startup: "conversationMessages (fst (startup e raw)) = [system_message]"
proof -
  have "conversationMessages (fst (loadSelectedFromStorage e (fresh_page raw))) = [system_message]"
    by (simp add: fresh_page_def)
  then show ?thesis
    by (cases "loadSelectedFromStorage e (fresh_page raw)")
       (auto simp: startup_def split: option.splits)
qed

lemma log_chat_submit:
  "conversationMessages (chatForm_submit e s) =
     (if String_trim e (userInput s) = [] then conversationMessages s
      else conversationMessages s @ [user_turn (String_trim e (userInput s))])"
  by (simp add: chat_defs Let_def)

lemma log_settled:
  "conversationMessages (chatForm_settled e outcome s) =
     (case sendMessageToOpenAI e outcome of
        Inr aiText \<Rightarrow> if ToString_throws aiText then conversationMessages s
                      else conversationMessages s @ [assistant_turn aiText]
      | Inl m \<Rightarrow> conversationMessages s)"
  "conversationMessages (generateBtn_settled e outcome s) =
     (case sendMessageToOpenAI e outcome of
        Inr aiText \<Rightarrow> if ToString_throws aiText then conversationMessages s
                      else conversationMessages s @ [assistant_turn aiText]
      | Inl m \<Rightarrow> conversationMessages s)"
  by (simp_all add: chat_defs Let_def split: sum.splits option.splits)

lemma log_generate_click:
  "conversationMessages (generateBtn_click e s) =
     (if selectedProducts s = [] then conversationMessages s
      else conversationMessages s @
             [user_turn (userInstruction e (getSelectedProductsArray s))])"
  by (simp add: chat_defs Let_def)

lemma starts_with_system_snoc:
  "starts_with_system ms \<Longrightarrow> starts_with_system (ms @ [m]) = (role m \<noteq> System)"
  by (cases ms) (auto simp: starts_with_system_def)

lemma dispatch_starts_with_system:
  "dispatch e ev s = Some s' \<Longrightarrow> starts_with_system (conversationMessages s) \<Longrightarrow>
   starts_with_system (conversationMessages s')"
  by (cases ev)
     (auto simp: log_chat_submit log_settled log_generate_click user_turn_def assistant_turn_def
                 starts_with_system_snoc
           split: if_splits sum.splits)

lemma handle_dispatch: "handle e ev s = Some s' \<Longrightarrow> dispatch e ev s = Some s'"
  by (cases ev) (simp_all add: handle_def split: if_splits)

lemma reachable_starts_with_system:
  "reachable e s \<Longrightarrow> starts_with_system (conversationMessages s)"
proof (induction rule: reachable.induct)
  case (reachable_startup raw)
  show ?case by (simp add: log_startup starts_with_system_def)
next
  case (reachable_handle s ev s')
  from dispatch_starts_with_system [OF handle_dispatch [OF reachable_handle.hyps(2)] reachable_handle.IH]
  show ?case .
qed

lemma run_reachable: "reachable e s \<Longrightarrow> run e evs s = Some s' \<Longrightarrow> reachable e s'"
proof (induction evs arbitrary: s)
  case Nil
  then show ?case by simp
next
  case (Cons ev evs)
  then show ?case
    by (auto split: option.splits intro: reachable_handle)
qed

lemma reachable_ready_to_chat: "reachable sample_env ready_to_chat"
proof (rule run_reachable [OF reachable_startup])
  show "run sample_env [CategoryLoaded sample_catalog ''cleanser'', CardClick 1, Typed '' hi '']
          (fst (startup sample_env None)) = Some ready_to_chat"
    by code_simp
qed



text \<open>
  C6. A click on the routine button while nothing is selected appends exactly one
  assistant bubble, the advisory, to the chat window, sends no request, and leaves no
  handler waiting.
\<close>

theorem generate_without_selection:
  assumes "selectedProducts s = []"
  shows "chatWindow (generateBtn_click e s) = chatWindow s @ [(Assistant, advisory)] \<and>
         requests (generateBtn_click e s) = requests s \<and>
         generate_awaiting (generateBtn_click e s) = generate_awaiting s"
  using assms by (simp add: chat_defs Let_def)

theorem generate_without_selection_witness:
  "selectedProducts (fst (startup sample_env None)) = [] \<and>
   chatWindow (generateBtn_click sample_env (fst (startup sample_env None))) =
     [(Assistant, advisory)] \<and>
   requests (generateBtn_click sample_env (fst (startup sample_env None))) = []"
proof -
  have none: "selectedProducts (fst (startup sample_env None)) = []"
    by code_simp
  have before: "chatWindow (fst (startup sample_env None)) = []"
    "requests (fst (startup sample_env None)) = []"
    by code_simp+
  from generate_without_selection [OF none, of sample_env] none show ?thesis
    by (simp add: before)
qed

text \<open>
  C7. In a reachable state, a chat submission with text to send, and a click on the
  routine button with a product selected, send as their request the whole history as it
  then is: the history before with the new user entry at its end, the system message at
  its head.
\<close>

theorem request_carries_full_log:
  assumes "reachable e s"
  shows "(String_trim e (userInput s) \<noteq> [] \<longrightarrow>
            (let s' = chatForm_submit e s
             in requests s' = requests s @ [conversationMessages s'] \<and>
                conversationMessages s' = conversationMessages s @ [user_turn (String_trim e (userInput s))] \<and>
                hd (conversationMessages s') = system_message \<and>
                chat_awaiting s' = Suc (chat_awaiting s))) \<and>
         (selectedProducts s \<noteq> [] \<longrightarrow>
            (let s' = generateBtn_click e s
             in requests s' = requests s @ [conversationMessages s'] \<and>
                conversationMessages s' =
                  conversationMessages s @ [user_turn (userInstruction e (getSelectedProductsArray s))] \<and>
                hd (conversationMessages s') = system_message \<and>
                generate_awaiting s' = Suc (generate_awaiting s)))"
proof -
  from reachable_starts_with_system [OF assms]
  obtain rest where "conversationMessages s = system_message # rest"
    by (auto simp: starts_with_system_def split: list.splits)
  then show ?thesis
    by (simp add: chat_defs Let_def)
qed

theorem request_carries_full_log_witness:
  "reachable sample_env ready_to_chat \<and>
   String_trim sample_env (userInput ready_to_chat) \<noteq> [] \<and>
   selectedProducts ready_to_chat \<noteq> [] \<and>
   requests (chatForm_submit sample_env ready_to_chat) = [[system_message, user_turn ''hi'']] \<and>
   requests (generateBtn_click sample_env ready_to_chat) =
     [[system_message, user_turn (userInstruction sample_env [item_of cleanser])]]"
proof -
  have typed: "String_trim sample_env (userInput ready_to_chat) \<noteq> []"
    by code_simp
  have chosen: "selectedProducts ready_to_chat \<noteq> []"
    by code_simp
  have trimmed: "String_trim sample_env (userInput ready_to_chat) = ''hi''"
    by code_simp
  have items: "getSelectedProductsArray ready_to_chat = [item_of cleanser]"
    by code_simp
  have log0: "conversationMessages ready_to_chat = [system_message]"
    by code_simp
  have sent0: "requests ready_to_chat = []"
    by code_simp
  from request_carries_full_log [OF reachable_ready_to_chat] typed chosen
  have "requests (chatForm_submit sample_env ready_to_chat) =
          requests ready_to_chat @ [conversationMessages (chatForm_submit sample_env ready_to_chat)]"
    and "conversationMessages (chatForm_submit sample_env ready_to_chat) =
          conversationMessages ready_to_chat @ [user_turn (String_trim sample_env (userInput ready_to_chat))]"
    and "requests (generateBtn_click sample_env ready_to_chat) =
          requests ready_to_chat @ [conversationMessages (generateBtn_click sample_env ready_to_chat)]"
    and "conversationMessages (generateBtn_click sample_env ready_to_chat) =
          conversationMessages ready_to_chat @
            [user_turn (userInstruction sample_env (getSelectedProductsArray ready_to_chat))]"
    by (simp_all add: Let_def)
  with reachable_ready_to_chat typed chosen show ?thesis
    by (simp add: trimmed items log0 sent0)
qed

lemmas selection_defs =
  toggleSelect_def chip_remove_click_def categoryFilter_change_def displayProducts_def
  displayed_def renderSelectedProducts_def saveSelectedProducts_def markSelectedCards_def emit_def

text \<open>The handlers of the selection leave the conversation alone.\<close>

lemma quiet_dispatch:
  assumes "quiet ev"
  shows "\<exists>s'. dispatch e ev s = Some s' \<and>
           conversationMessages s' = conversationMessages s \<and>
           chat_awaiting s' = chat_awaiting s \<and> generate_awaiting s' = generate_awaiting s \<and>
           listeners_attached s' = listeners_attached s"
proof (cases ev)
  case (CardClick productId)
  then show ?thesis
    by (cases s) (simp add: selection_defs Let_def split: option.splits)
next
  case (ChipRemove removeId)
  then show ?thesis
    by (cases s) (simp add: selection_defs Let_def split: option.splits)
next
  case (CategoryLoaded data c)
  then show ?thesis
    by (cases s)
       (simp add: selection_defs Let_def split: json.splits val.splits option.splits sum.splits)
next
  case (Typed t)
  then show ?thesis by simp
qed (insert assms, simp_all)

lemma quiet_handle:
  assumes "quiet ev" and "listeners_attached s"
  shows "\<exists>s'. handle e ev s = Some s' \<and>
           conversationMessages s' = conversationMessages s \<and>
           chat_awaiting s' = chat_awaiting s \<and> generate_awaiting s' = generate_awaiting s \<and>
           listeners_attached s'"
proof -
  have "handle e ev s = dispatch e ev s"
    using assms(2) by (cases ev) (simp_all add: handle_def)
  with quiet_dispatch [OF assms(1), of e s] assms(2) show ?thesis by auto
qed

lemma quiet_run:
  "list_all quiet evs \<Longrightarrow> listeners_attached s \<Longrightarrow>
   \<exists>t. run e evs s = Some t \<and> conversationMessages t = conversationMessages s \<and>
       chat_awaiting t = chat_awaiting s \<and> generate_awaiting t = generate_awaiting s \<and>
       listeners_attached t"
proof (induction evs arbitrary: s)
  case Nil
  then show ?case by simp
next
  case (Cons ev evs)
  from Cons.prems have "quiet ev" and rest: "list_all quiet evs" by simp_all
  from quiet_handle [OF this(1) Cons.prems(2), of e]
  obtain s' where s': "handle e ev s = Some s'"
    "conversationMessages s' = conversationMessages s"
    "chat_awaiting s' = chat_awaiting s" "generate_awaiting s' = generate_awaiting s"
    "listeners_attached s'"
    by blast
  from Cons.IH [OF rest s'(5)] s' show ?case by simp
qed

lemma run_append:
  "run e (xs @ ys) s = (case run e xs s of None \<Rightarrow> None | Some t \<Rightarrow> run e ys t)"
  by (induction xs arbitrary: s) (simp_all split: option.splits)

lemma chat_exchange_run:
  assumes "listeners_attached s" and "String_trim e (userInput s) \<noteq> []"
    and "list_all quiet evs"
    and "sendMessageToOpenAI e outcome = Inr aiText" and "\<not> ToString_throws aiText"
  shows "map_option conversationMessages (run e (ChatSubmit # evs @ [ChatSettled outcome]) s) =
           Some (conversationMessages s @
                   [user_turn (String_trim e (userInput s)), assistant_turn aiText])"
proof -
  let ?s1 = "chatForm_submit e s"
  have s1: "handle e ChatSubmit s = Some ?s1"
    using assms(1) by (simp add: handle_def)
  have att: "listeners_attached ?s1" and aw: "chat_awaiting ?s1 = Suc (chat_awaiting s)"
    using assms(1,2) by (simp_all add: chat_defs Let_def)
  from quiet_run [OF assms(3) att, of e]
  obtain t where t: "run e evs ?s1 = Some t" "conversationMessages t = conversationMessages ?s1"
    "chat_awaiting t = chat_awaiting ?s1" "listeners_attached t"
    by blast
  have "handle e (ChatSettled outcome) t = Some (chatForm_settled e outcome t)"
    using t(3,4) aw by (simp add: handle_def)
  then show ?thesis
    using s1 t(1,2) assms(2,4,5) by (simp add: run_append log_settled log_chat_submit)
qed

lemma generate_exchange_run:
  assumes "listeners_attached s" and "selectedProducts s \<noteq> []"
    and "list_all quiet evs"
    and "sendMessageToOpenAI e outcome = Inr aiText" and "\<not> ToString_throws aiText"
  shows "map_option conversationMessages
           (run e (GenerateClick # evs @ [GenerateSettled outcome]) s) =
           Some (conversationMessages s @
                   [user_turn (userInstruction e (getSelectedProductsArray s)),
                    assistant_turn aiText])"
proof -
  let ?s1 = "generateBtn_click e s"
  have s1: "handle e GenerateClick s = Some ?s1"
    using assms(1) by (simp add: handle_def)
  have att: "listeners_attached ?s1" and aw: "generate_awaiting ?s1 = Suc (generate_awaiting s)"
    using assms(1,2) by (simp_all add: chat_defs Let_def)
  from quiet_run [OF assms(3) att, of e]
  obtain t where t: "run e evs ?s1 = Some t" "conversationMessages t = conversationMessages ?s1"
    "generate_awaiting t = generate_awaiting ?s1" "listeners_attached t"
    by blast
  have "handle e (GenerateSettled outcome) t = Some (generateBtn_settled e outcome t)"
    using t(3,4) aw by (simp add: handle_def)
  then show ?thesis
    using s1 t(1,2) assms(2,4,5) by (simp add: run_append log_settled log_generate_click)
qed

text \<open>
  C5 (as the code has it). In every reachable state the history starts with the system
  message and has no other system entry. A chat submission and a routine generation
  each append exactly one user entry when they start, and exactly one assistant entry
  when their request settles with a reply that can be shown as text, whatever the state
  \<open>t\<close> it settles in. When only quiet events (\<open>evs\<close>) come between the start and the
  settling, so that no other submission starts and no other request settles, the
  settling is taken and the history has grown by exactly the user entry followed by the
  assistant entry.
\<close>

theorem exchange_appends_turns:
  assumes "reachable e s"
  shows "starts_with_system (conversationMessages s) \<and>
         (String_trim e (userInput s) \<noteq> [] \<longrightarrow>
            conversationMessages (chatForm_submit e s) =
              conversationMessages s @ [user_turn (String_trim e (userInput s))]) \<and>
         (selectedProducts s \<noteq> [] \<longrightarrow>
            conversationMessages (generateBtn_click e s) =
              conversationMessages s @ [user_turn (userInstruction e (getSelectedProductsArray s))]) \<and>
         (sendMessageToOpenAI e outcome = Inr aiText \<and> \<not> ToString_throws aiText \<longrightarrow>
            conversationMessages (chatForm_settled e outcome t) =
              conversationMessages t @ [assistant_turn aiText] \<and>
            conversationMessages (generateBtn_settled e outcome t) =
              conversationMessages t @ [assistant_turn aiText]) \<and>
         (listeners_attached s \<and> list_all quiet evs \<and>
          sendMessageToOpenAI e outcome = Inr aiText \<and> \<not> ToString_throws aiText \<longrightarrow>
            (String_trim e (userInput s) \<noteq> [] \<longrightarrow>
               map_option conversationMessages
                 (run e (ChatSubmit # evs @ [ChatSettled outcome]) s) =
                 Some (conversationMessages s @
                         [user_turn (String_trim e (userInput s)), assistant_turn aiText])) \<and>
            (selectedProducts s \<noteq> [] \<longrightarrow>
               map_option conversationMessages
                 (run e (GenerateClick # evs @ [GenerateSettled outcome]) s) =
                 Some (conversationMessages s @
                         [user_turn (userInstruction e (getSelectedProductsArray s)),
                          assistant_turn aiText])))"
  using reachable_starts_with_system [OF assms] chat_exchange_run generate_exchange_run
  by (simp add: log_chat_submit log_settled log_generate_click)

theorem exchange_appends_turns_witness:
  "reachable sample_env ready_to_chat \<and> listeners_attached ready_to_chat \<and>
   String_trim sample_env (userInput ready_to_chat) \<noteq> [] \<and>
   selectedProducts ready_to_chat \<noteq> [] \<and>
   list_all quiet [Typed ''next'', CardClick 1] \<and>
   sendMessageToOpenAI sample_env hello_reply = Inr (str ''hello'') \<and>
   \<not> ToString_throws (str ''hello'') \<and>
   map_option conversationMessages
     (run sample_env (ChatSubmit # [Typed ''next'', CardClick 1] @ [ChatSettled hello_reply])
        ready_to_chat) =
     Some [system_message, user_turn ''hi'', assistant_turn (str ''hello'')] \<and>
   map_option conversationMessages
     (run sample_env (GenerateClick # [Typed ''next'', CardClick 1] @ [GenerateSettled hello_reply])
        ready_to_chat) =
     Some [system_message, user_turn (userInstruction sample_env [item_of cleanser]),
           assistant_turn (str ''hello'')]"
proof -
  have live: "listeners_attached ready_to_chat"
    by code_simp
  have typed: "String_trim sample_env (userInput ready_to_chat) \<noteq> []"
    by code_simp
  have chosen: "selectedProducts ready_to_chat \<noteq> []"
    by code_simp
  have calm: "list_all quiet [Typed ''next'', CardClick 1]"
    by code_simp
  have reply: "sendMessageToOpenAI sample_env hello_reply = Inr (str ''hello'')"
    by code_simp
  have shows_up: "\<not> ToString_throws (str ''hello'')"
    by code_simp
  have trimmed: "String_trim sample_env (userInput ready_to_chat) = ''hi''"
    by code_simp
  have items: "getSelectedProductsArray ready_to_chat = [item_of cleanser]"
    by code_simp
  have log0: "conversationMessages ready_to_chat = [system_message]"
    by code_simp
  note turns = exchange_appends_turns
         [OF reachable_ready_to_chat,
          where outcome = hello_reply and aiText = "str ''hello''"
            and evs = "[Typed ''next'', CardClick 1]"]
  from turns live typed chosen calm reply shows_up
  have chat: "map_option conversationMessages
       (run sample_env (ChatSubmit # [Typed ''next'', CardClick 1] @ [ChatSettled hello_reply])
          ready_to_chat) =
       Some (conversationMessages ready_to_chat @
               [user_turn (String_trim sample_env (userInput ready_to_chat)),
                assistant_turn (str ''hello'')])"
    by blast
  from turns live typed chosen calm reply shows_up
  have routine: "map_option conversationMessages
       (run sample_env (GenerateClick # [Typed ''next'', CardClick 1] @ [GenerateSettled hello_reply])
          ready_to_chat) =
       Some (conversationMessages ready_to_chat @
               [user_turn (userInstruction sample_env (getSelectedProductsArray ready_to_chat)),
                assistant_turn (str ''hello'')])"
    by blast
  from chat routine reachable_ready_to_chat live typed chosen calm reply shows_up
  show ?thesis
    by (simp only: trimmed items log0 append_Cons append_Nil simp_thms)
qed

text \<open>
  C5 as stated fails when the routine button is clicked while a chat request is in
  flight (the button is not disabled then): the routine's user entry is in the history
  between the chat's user entry and the chat's assistant entry.
\<close>

theorem exchange_interleaved_counterexample:
  "map_option generateBtn_disabled (run sample_env [Typed ''hi'', ChatSubmit] one_selected)
     = Some False \<and>
   map_option conversationMessages
     (run sample_env [Typed ''hi'', ChatSubmit, GenerateClick, ChatSettled hello_reply] one_selected)
     = Some [system_message, user_turn ''hi'',
             user_turn (userInstruction sample_env [item_of cleanser]),
             assistant_turn (str ''hello'')]"
  by code_simp

lemma same_but_chatD: "same_but_chat s t \<Longrightarrow> t = s\<lparr>chatWindow := chatWindow t\<rparr>"
proof -
  assume "same_but_chat s t"
  then have "(s\<lparr>chatWindow := []\<rparr>)\<lparr>chatWindow := chatWindow t\<rparr> =
             (t\<lparr>chatWindow := []\<rparr>)\<lparr>chatWindow := chatWindow t\<rparr>"
    by (simp only: same_but_chat_def)
  then show ?thesis by simp
qed

lemma same_but_chat_update [simp]:
  "same_but_chat (s\<lparr>chatWindow := w\<rparr>) (s\<lparr>chatWindow := w'\<rparr>)"
  by (simp add: same_but_chat_def)

lemma same_but_chat_update_right [simp]: "same_but_chat s (s\<lparr>chatWindow := w'\<rparr>)"
  by (simp add: same_but_chat_def)

lemma cw_store:
  "(s\<lparr>chatWindow := w\<rparr>)\<lparr>selectedProducts := m\<rparr> = (s\<lparr>selectedProducts := m\<rparr>)\<lparr>chatWindow := w\<rparr>"
  by (cases s) simp

lemma cw_displayed [simp]: "displayed (s\<lparr>chatWindow := w\<rparr>) = displayed s"
  by (simp add: displayed_def)

lemma cw_render:
  "renderSelectedProducts (s\<lparr>chatWindow := w\<rparr>) =
     map_prod (\<lambda>t. t\<lparr>chatWindow := w\<rparr>) id (renderSelectedProducts s)"
  by (cases s) (simp add: renderSelectedProducts_def emit_def Let_def)

lemma cw_save:
  "saveSelectedProducts e (s\<lparr>chatWindow := w\<rparr>) = (saveSelectedProducts e s)\<lparr>chatWindow := w\<rparr>"
  by (cases s) (simp add: saveSelectedProducts_def emit_def Let_def)

lemma cw_toggle:
  "fst (toggleSelect e i (s\<lparr>chatWindow := w\<rparr>)) = (fst (toggleSelect e i s))\<lparr>chatWindow := w\<rparr>"
  by (simp add: toggleSelect_def Let_def cw_store cw_save cw_render split: option.splits)

lemma cw_chip:
  "fst (chip_remove_click e i (s\<lparr>chatWindow := w\<rparr>)) =
     (fst (chip_remove_click e i s))\<lparr>chatWindow := w\<rparr>"
  by (cases "renderSelectedProducts (s\<lparr>selectedProducts := map_delete (KNum i) (selectedProducts s)\<rparr>)")
     (auto simp: chip_remove_click_def cw_store cw_save cw_render split: option.splits)

lemma cw_category:
  "fst (categoryFilter_change e d c (s\<lparr>chatWindow := w\<rparr>)) =
     (fst (categoryFilter_change e d c s))\<lparr>chatWindow := w\<rparr>"
  by (cases s)
     (simp add: categoryFilter_change_def displayProducts_def Let_def
           split: json.splits val.splits option.splits sum.splits)

lemma cw_chat_submit:
  "same_but_chat (chatForm_submit e (s\<lparr>chatWindow := w\<rparr>)) (chatForm_submit e s)"
  by (cases s) (simp add: chat_defs same_but_chat_def Let_def)

lemma cw_generate_click:
  "same_but_chat (generateBtn_click e (s\<lparr>chatWindow := w\<rparr>)) (generateBtn_click e s)"
  by (cases s) (simp add: chat_defs same_but_chat_def Let_def)

lemma cw_chat_settled:
  "same_but_chat (chatForm_settled e outcome (s\<lparr>chatWindow := w\<rparr>)) (chatForm_settled e outcome s)"
  by (cases s) (simp add: chat_defs same_but_chat_def Let_def split: sum.splits option.splits)

lemma cw_generate_settled:
  "same_but_chat (generateBtn_settled e outcome (s\<lparr>chatWindow := w\<rparr>))
     (generateBtn_settled e outcome s)"
  by (cases s) (simp add: chat_defs same_but_chat_def Let_def split: sum.splits option.splits)

lemma same_but_chat_sym: "same_but_chat s t \<Longrightarrow> same_but_chat t s"
  by (simp add: same_but_chat_def)

lemma dispatch_same_but_chat:
  assumes "same_but_chat s t"
  shows "rel_option same_but_chat (dispatch e ev s) (dispatch e ev t)"
proof -
  from same_but_chatD [OF assms] obtain w where t: "t = s\<lparr>chatWindow := w\<rparr>" ..
  show ?thesis
  proof (cases ev)
    case (CardClick i)
    then show ?thesis by (simp add: t cw_toggle)
  next
    case (ChipRemove i)
    then show ?thesis by (simp add: t cw_chip)
  next
    case (CategoryLoaded d c)
    then show ?thesis by (simp add: t cw_category)
  next
    case (Typed x)
    then show ?thesis by (simp add: t same_but_chat_def)
  next
    case ChatSubmit
    then show ?thesis by (simp add: t same_but_chat_sym [OF cw_chat_submit])
  next
    case (ChatSettled outcome)
    then show ?thesis by (simp add: t same_but_chat_sym [OF cw_chat_settled])
  next
    case GenerateClick
    then show ?thesis by (simp add: t same_but_chat_sym [OF cw_generate_click])
  next
    case (GenerateSettled outcome)
    then show ?thesis by (simp add: t same_but_chat_sym [OF cw_generate_settled])
  qed
qed

lemma handle_same_but_chat:
  assumes "same_but_chat s t"
  shows "rel_option same_but_chat (handle e ev s) (handle e ev t)"
proof -
  from same_but_chatD [OF assms] obtain w where t: "t = s\<lparr>chatWindow := w\<rparr>" ..
  have "listeners_attached t = listeners_attached s"
    by (simp add: t)
  with dispatch_same_but_chat [OF assms, of e ev] show ?thesis
    by (cases ev) (simp_all add: handle_def)
qed

lemma run_same_but_chat:
  "same_but_chat s t \<Longrightarrow> rel_option same_but_chat (run e evs s) (run e evs t)"
proof (induction evs arbitrary: s t)
  case Nil
  then show ?case by simp
next
  case (Cons ev evs)
  from handle_same_but_chat [OF Cons.prems, of e ev] show ?case
    by (cases "handle e ev s"; cases "handle e ev t") (simp_all add: Cons.IH)
qed

lemma same_but_chat_fields:
  assumes "same_but_chat s t"
  shows "requests s = requests t \<and> conversationMessages s = conversationMessages t"
proof -
  from assms have eq: "s\<lparr>chatWindow := []\<rparr> = t\<lparr>chatWindow := []\<rparr>"
    by (simp only: same_but_chat_def)
  from arg_cong [OF eq, of requests] arg_cong [OF eq, of conversationMessages]
  show ?thesis by simp
qed

text \<open>
  C10. A click on the routine button while nothing is selected changes the chat window
  and nothing else: the history is as before, and whatever happens next, the requests
  sent and the history are those of the same events without the click.
\<close>

theorem advisory_not_in_log:
  assumes "selectedProducts s = []"
  shows "conversationMessages (generateBtn_click e s) = conversationMessages s \<and>
         generateBtn_click e s = s\<lparr>chatWindow := chatWindow s @ [(Assistant, advisory)]\<rparr> \<and>
         map_option requests (run e evs (generateBtn_click e s)) = map_option requests (run e evs s) \<and>
         map_option conversationMessages (run e evs (generateBtn_click e s)) =
           map_option conversationMessages (run e evs s)"
proof -
  have click: "generateBtn_click e s = s\<lparr>chatWindow := chatWindow s @ [(Assistant, advisory)]\<rparr>"
    using assms by (simp add: chat_defs)
  have "same_but_chat s (generateBtn_click e s)"
    by (simp add: click)
  from run_same_but_chat [OF this, of e evs]
  have "rel_option same_but_chat (run e evs s) (run e evs (generateBtn_click e s))" .
  then have "map_option requests (run e evs (generateBtn_click e s)) = map_option requests (run e evs s)"
    and "map_option conversationMessages (run e evs (generateBtn_click e s)) =
           map_option conversationMessages (run e evs s)"
    by (cases "run e evs s"; cases "run e evs (generateBtn_click e s)";
        simp add: same_but_chat_fields)+
  with click show ?thesis by simp
qed

theorem advisory_not_in_log_witness:
  "selectedProducts (fst (startup sample_env None)) = [] \<and>
   conversationMessages (generateBtn_click sample_env (fst (startup sample_env None))) =
     [system_message] \<and>
   map_option requests
     (run sample_env [Typed ''hi'', ChatSubmit]
        (generateBtn_click sample_env (fst (startup sample_env None))))
     = Some [[system_message, user_turn ''hi'']]"
proof -
  let ?s = "fst (startup sample_env None)"
  have none: "selectedProducts ?s = []"
    by code_simp
  have log0: "conversationMessages ?s = [system_message]"
    by (simp add: log_startup)
  have sent: "map_option requests (run sample_env [Typed ''hi'', ChatSubmit] ?s)
                = Some [[system_message, user_turn ''hi'']]"
    by code_simp
  note unseen = advisory_not_in_log [OF none, of sample_env "[Typed ''hi'', ChatSubmit]"]
  from unseen
  have same_log: "conversationMessages (generateBtn_click sample_env ?s) = conversationMessages ?s"
    by blast
  from unseen
  have same_sent: "map_option requests
                     (run sample_env [Typed ''hi'', ChatSubmit] (generateBtn_click sample_env ?s)) =
                   map_option requests (run sample_env [Typed ''hi'', ChatSubmit] ?s)"
    by blast
  from none show ?thesis
    by (simp only: same_log same_sent log0 sent simp_thms)
qed

end
